theory Spec2Isabelle
  imports Main "HOL-Library.Word"
begin

section \<open>Results of running the code\<close>

text \<open>
  The classes of \<^verbatim>\<open>krb5_impl.cpp\<close> call the Kerberos library, the configuration, the
  log and the file system. A member function is modelled as a function of the state of
  that outside world (type \<open>'s\<close>): it returns its value, the new state and the events
  it produced, in order. An event is a call of a native function (a read of the
  configuration is named with its key), a reported error
  (\<^verbatim>\<open>PrintError\<close> with its code, \<^verbatim>\<open>Logging::Error\<close> without one) or an informational
  log line (\<open>InfoTimes\<close> is the line that prints a validity window).

  C++ behaviour that has no value is a \<open>fault\<close>: the dereference of an empty
  \<^verbatim>\<open>shared_ptr\<close> or of a null native pointer, and the read of a local variable that
  was declared without an initialiser and never written.
\<close>

datatype fault = NullDeref | UninitRead

datatype event =
    Call string
  | Error int string
  | LogError string
  | Info string
  | InfoTimes "32 word list"

type_synonym ('a, 's) res = "fault + 'a \<times> 's \<times> event list"

definition ret :: "'a \<Rightarrow> 's \<Rightarrow> ('a, 's) res" where
  "ret x s = Inr (x, s, [])"

definition raise :: "fault \<Rightarrow> 's \<Rightarrow> ('a, 's) res" where
  "raise f s = Inl f"

definition bnd :: "('s \<Rightarrow> ('a, 's) res) \<Rightarrow> ('a \<Rightarrow> 's \<Rightarrow> ('b, 's) res) \<Rightarrow> 's \<Rightarrow> ('b, 's) res" where
  "bnd m f s =
     (case m s of
        Inl e \<Rightarrow> Inl e
      | Inr (x, s1, es1) \<Rightarrow>
          (case f x s1 of
             Inl e \<Rightarrow> Inl e
           | Inr (y, s2, es2) \<Rightarrow> Inr (y, s2, es1 @ es2)))"

definition emit :: "event \<Rightarrow> 's \<Rightarrow> (unit, 's) res" where
  "emit e s = Inr ((), s, [e])"

text \<open>A native call that only reads the outside world, and one that may change it.\<close>

definition native_read :: "string \<Rightarrow> ('s \<Rightarrow> 'a) \<Rightarrow> 's \<Rightarrow> ('a, 's) res" where
  "native_read name f s = Inr (f s, s, [Call name])"

definition native_write :: "string \<Rightarrow> ('s \<Rightarrow> 'a \<times> 's) \<Rightarrow> 's \<Rightarrow> ('a, 's) res" where
  "native_write name f s = (case f s of (x, s') \<Rightarrow> Inr (x, s', [Call name]))"

text \<open>
  The events that change the credential cache or exchange messages with the key
  distribution centre: creation, store, renewal and initial issue.
\<close>

definition mutation :: "event \<Rightarrow> bool" where
  "mutation e =
     (e = Call ''krb5_cc_initialize'' \<or> e = Call ''krb5_cc_store_cred'' \<or>
      e = Call ''krb5_get_renewed_creds'' \<or> e = Call ''krb5_get_init_creds_keytab'' \<or>
      e = Call ''setenv'')"

section \<open>The native data and the library interface\<close>

text \<open>
  \<^verbatim>\<open>krb5.h\<close> is not part of the repository. Its types are modelled by what the code
  reads of them: \<^verbatim>\<open>krb5_error_code\<close> is an integer, 0 for success; \<^verbatim>\<open>krb5_timestamp\<close>
  is the library's signed 32-bit integer, compared as such; a principal has a realm and
  name components; a native pointer is an \<open>option\<close>, \<open>None\<close> being \<^verbatim>\<open>nullptr\<close>.
\<close>

type_synonym krb5_error_code = int

type_synonym krb5_timestamp = "32 word"

record krb5_principal_data =
  realm :: string
  components :: "string list"

type_synonym krb5_principal = "krb5_principal_data option"

record krb5_ticket_times =
  starttime :: krb5_timestamp
  endtime :: krb5_timestamp
  renew_till :: krb5_timestamp

record krb5_creds =
  client :: krb5_principal
  server :: krb5_principal
  times :: krb5_ticket_times
  ticket :: string

record krb5_keytab_entry =
  entry_principal :: krb5_principal_data

text \<open>The handles \<^verbatim>\<open>krb5_keytab\<close> and \<^verbatim>\<open>krb5_ccache\<close> are opaque pointers.\<close>

type_synonym krb5_keytab = "nat option"

type_synonym krb5_ccache = "nat option"

text \<open>
  A local variable or member that the code declares without an initialiser holds an
  indeterminate value until a native call writes it.
\<close>

datatype 'a cell = Indeterminate | Val 'a

text \<open>
  The library, the configuration and the file system are parameters of the model: one
  field for each native function the code calls. A function with an output parameter
  returns the error code together with the value written; the code reads that value
  only where the native call has written it, which the library does on success (code 0).
  The functions that change the outside world return its new state as well.
\<close>

record 's krb5_lib =
  krb5_timeofday :: "'s \<Rightarrow> krb5_error_code \<times> krb5_timestamp"
  krb5_copy_principal :: "'s \<Rightarrow> krb5_principal_data \<Rightarrow> krb5_error_code \<times> krb5_principal_data"
  krb5_kt_resolve :: "'s \<Rightarrow> string \<Rightarrow> krb5_error_code \<times> nat"
  krb5_kt_start_seq_get :: "'s \<Rightarrow> krb5_keytab \<Rightarrow> krb5_error_code"
  krb5_kt_next_entry :: "'s \<Rightarrow> krb5_keytab \<Rightarrow> krb5_error_code \<times> krb5_keytab_entry"
  krb5_kt_end_seq_get :: "'s \<Rightarrow> krb5_keytab \<Rightarrow> krb5_error_code"
  krb5_kt_free_entry :: "'s \<Rightarrow> krb5_keytab_entry \<Rightarrow> krb5_error_code"
  krb5_kt_default_name :: "'s \<Rightarrow> krb5_error_code \<times> string"
  krb5_get_init_creds_keytab ::
    "'s \<Rightarrow> krb5_principal \<Rightarrow> krb5_keytab \<Rightarrow> (krb5_error_code \<times> krb5_creds) \<times> 's"
  krb5_cc_resolve :: "'s \<Rightarrow> string \<Rightarrow> krb5_error_code \<times> nat"
  krb5_cc_default_name :: "'s \<Rightarrow> string"
  krb5_cc_initialize :: "'s \<Rightarrow> krb5_ccache \<Rightarrow> krb5_principal \<Rightarrow> krb5_error_code \<times> 's"
  krb5_cc_store_cred :: "'s \<Rightarrow> krb5_ccache \<Rightarrow> krb5_creds \<Rightarrow> krb5_error_code \<times> 's"
  krb5_cc_get_principal :: "'s \<Rightarrow> krb5_ccache \<Rightarrow> krb5_error_code \<times> krb5_principal_data"
  krb5_cc_retrieve_cred ::
    "'s \<Rightarrow> krb5_ccache \<Rightarrow> krb5_creds \<Rightarrow> krb5_error_code \<times> krb5_creds"
  krb5_get_renewed_creds ::
    "'s \<Rightarrow> krb5_principal \<Rightarrow> krb5_ccache \<Rightarrow> (krb5_error_code \<times> krb5_creds) \<times> 's"
  krb5_build_principal_ext ::
    "'s \<Rightarrow> string \<Rightarrow> string list \<Rightarrow> krb5_error_code \<times> krb5_principal_data"
  cfg_variable :: "'s \<Rightarrow> string \<Rightarrow> string option \<Rightarrow> string"
  fs_exists :: "'s \<Rightarrow> string \<Rightarrow> bool option"
  setenv :: "'s \<Rightarrow> string \<Rightarrow> string \<Rightarrow> 's"

section \<open>Context\<close>

text \<open>
  \<^verbatim>\<open>Context::PrintError\<close> translates the code to a message and logs it at error level:
  one \<open>Error\<close> event with the code and the caller's message.
\<close>

definition PrintError :: "krb5_error_code \<Rightarrow> string \<Rightarrow> 's \<Rightarrow> (unit, 's) res" where
  "PrintError code message = emit (Error code message)"

section \<open>Principal\<close>

text \<open>Member \<^verbatim>\<open>principal_\<close>, \<^verbatim>\<open>nullptr\<close> when the copy failed.\<close>

record Principal =
  m_principal :: krb5_principal

text \<open>
  The constructor copies the native principal it is given; a failed copy is reported
  and the object is constructed all the same. The argument is read by the native copy.
\<close>

definition Principal_ctor ::
  "'s krb5_lib \<Rightarrow> krb5_principal_data cell \<Rightarrow> 's \<Rightarrow> (Principal, 's) res" where
  "Principal_ctor L src =
     (case src of
        Indeterminate \<Rightarrow> raise UninitRead
      | Val p \<Rightarrow>
          bnd (native_read ''krb5_copy_principal'' (\<lambda>s. krb5_copy_principal L s p))
            (\<lambda>(error_code, copy).
               if error_code \<noteq> 0
               then bnd (PrintError error_code ''krb5_copy_principal'')
                      (\<lambda>_. ret \<lparr>m_principal = None\<rparr>)
               else ret \<lparr>m_principal = Some copy\<rparr>))"

definition Realm :: "Principal \<Rightarrow> 's \<Rightarrow> (string, 's) res" where
  "Realm p =
     (case m_principal p of
        None \<Rightarrow> raise NullDeref
      | Some d \<Rightarrow> ret (realm d))"

definition Ptr :: "Principal \<Rightarrow> krb5_principal" where
  "Ptr p = m_principal p"

section \<open>Creds\<close>

text \<open>Member \<^verbatim>\<open>creds_\<close>, a copy of the structure given to the constructor.\<close>

record Creds =
  m_creds :: "krb5_creds cell"

datatype State = None_State | Renew | Reinit

definition read_creds :: "Creds \<Rightarrow> 's \<Rightarrow> (krb5_creds, 's) res" where
  "read_creds c =
     (case m_creds c of
        Indeterminate \<Rightarrow> raise UninitRead
      | Val k \<Rightarrow> ret k)"

definition StartTime :: "Creds \<Rightarrow> 's \<Rightarrow> (krb5_timestamp, 's) res" where
  "StartTime c = bnd (read_creds c) (\<lambda>k. ret (starttime (times k)))"

definition EndTime :: "Creds \<Rightarrow> 's \<Rightarrow> (krb5_timestamp, 's) res" where
  "EndTime c = bnd (read_creds c) (\<lambda>k. ret (endtime (times k)))"

definition RenewTime :: "Creds \<Rightarrow> 's \<Rightarrow> (krb5_timestamp, 's) res" where
  "RenewTime c = bnd (read_creds c) (\<lambda>k. ret (renew_till (times k)))"

text \<open>
  \<^verbatim>\<open>krb5_timestamp now{0}; krb5_timeofday(GetContext(), &now);\<close> The return code is
  not looked at: \<open>now\<close> keeps 0 when the library did not write it.
\<close>

definition now_of :: "krb5_error_code \<times> krb5_timestamp \<Rightarrow> krb5_timestamp" where
  "now_of r = (case r of (error_code, t) \<Rightarrow> if error_code = 0 then t else 0)"

definition time_now :: "'s krb5_lib \<Rightarrow> 's \<Rightarrow> (krb5_timestamp, 's) res" where
  "time_now L =
     bnd (native_read ''krb5_timeofday'' (krb5_timeofday L)) (\<lambda>r. ret (now_of r))"

text \<open>\<^verbatim>\<open>Creds::State\<close>: the comparisons are those of signed 32-bit integers.\<close>

definition Creds_State :: "'s krb5_lib \<Rightarrow> Creds \<Rightarrow> 's \<Rightarrow> (State, 's) res" where
  "Creds_State L c =
     bnd (time_now L)
       (\<lambda>now. bnd (EndTime c)
          (\<lambda>end_time.
             if sint end_time \<le> sint now
             then bnd (RenewTime c)
                    (\<lambda>renew_time. ret (if sint renew_time \<le> sint now then Reinit else Renew))
             else ret None_State))"

text \<open>
  \<^verbatim>\<open>Creds::TimesInfo\<close> renders now, start, end and renew-until as text; the model
  returns the four timestamps in that order. The source's \<^verbatim>\<open>SndTime()\<close>, which no
  class declares, is read as \<^verbatim>\<open>EndTime()\<close>, the value its label names.
\<close>

definition TimesInfo :: "'s krb5_lib \<Rightarrow> Creds \<Rightarrow> 's \<Rightarrow> (krb5_timestamp list, 's) res" where
  "TimesInfo L c =
     bnd (time_now L)
       (\<lambda>now. bnd (StartTime c)
          (\<lambda>t1. bnd (EndTime c)
             (\<lambda>t2. bnd (RenewTime c)
                (\<lambda>t3. ret [now, t1, t2, t3]))))"

section \<open>FileInterface\<close>

text \<open>Members \<^verbatim>\<open>fullpath_\<close> and \<^verbatim>\<open>program_type_\<close>.\<close>

record FileInterface =
  m_fullpath :: string
  m_program_type :: string

definition FileName :: "'a FileInterface_scheme \<Rightarrow> string" where
  "FileName obj = m_fullpath obj"

definition ProgramType :: "'a FileInterface_scheme \<Rightarrow> string" where
  "ProgramType obj = m_program_type obj"

text \<open>
  \<^verbatim>\<open>FileExists\<close> strips a leading \<^verbatim>\<open>FILE:\<close> and asks the file system; when that
  throws \<^verbatim>\<open>filesystem_error\<close> (\<open>None\<close>) it logs an error and answers false. The
  log texts that the source writes in Russian are given in English.
\<close>

definition FileExists :: "'s krb5_lib \<Rightarrow> 'a FileInterface_scheme \<Rightarrow> 's \<Rightarrow> (bool, 's) res" where
  "FileExists L obj =
     (let buf = m_fullpath obj;
          buf = (if take (length ''FILE:'') buf = ''FILE:'' then drop (length ''FILE:'') buf else buf)
      in bnd (native_read ''fs::exists'' (\<lambda>s. fs_exists L s buf))
           (\<lambda>r. case r of
                  None \<Rightarrow> bnd (emit (LogError ''file access error'')) (\<lambda>_. ret False)
                | Some res \<Rightarrow> ret res))"

text \<open>
  \<^verbatim>\<open>Init\<close> reads the program type from the configuration and, only when the path is
  empty, takes the path from \<^verbatim>\<open>DefaultName\<close> or \<^verbatim>\<open>ConfigName\<close> of the derived class,
  given here as arguments.
\<close>

definition Init ::
  "'s krb5_lib \<Rightarrow> ('s \<Rightarrow> (string, 's) res) \<Rightarrow> ('s \<Rightarrow> (string, 's) res) \<Rightarrow>
   'a FileInterface_scheme \<Rightarrow> 's \<Rightarrow> ('a FileInterface_scheme, 's) res" where
  "Init L defaultName configName obj =
     bnd (native_read ''cfg.variable(system/type)'' (\<lambda>s. cfg_variable L s ''system/type'' (Some ''manual'')))
       (\<lambda>program_type.
          if m_fullpath obj = []
          then bnd (if program_type = ''manual'' then defaultName else configName)
                 (\<lambda>path. ret (obj\<lparr>m_program_type := program_type, m_fullpath := path\<rparr>))
          else ret (obj\<lparr>m_program_type := program_type\<rparr>))"

section \<open>Keytab\<close>

text \<open>Member \<^verbatim>\<open>keytab_\<close>, \<^verbatim>\<open>nullptr\<close> until \<^verbatim>\<open>krb5_kt_resolve\<close> has written it.\<close>

record Keytab = FileInterface +
  m_keytab :: krb5_keytab

definition Keytab_DefaultName :: "'s krb5_lib \<Rightarrow> 's \<Rightarrow> (string, 's) res" where
  "Keytab_DefaultName L =
     bnd (native_read ''krb5_kt_default_name'' (krb5_kt_default_name L))
       (\<lambda>(error_code, fullpath).
          if error_code \<noteq> 0
          then bnd (PrintError error_code ''krb5_kt_default_name'') (\<lambda>_. ret [])
          else ret fullpath)"

definition Keytab_ConfigName :: "'s krb5_lib \<Rightarrow> 's \<Rightarrow> (string, 's) res" where
  "Keytab_ConfigName L =
     bnd (native_read ''cfg.variable(system/progpath)'' (\<lambda>s. cfg_variable L s ''system/progpath'' None))
       (\<lambda>fullpath.
          native_read ''cfg.variable(kerberos/keytab)''
            (\<lambda>s. cfg_variable L s ''kerberos/keytab'' (Some (fullpath @ ''/keytab''))))"

definition Keytab_ctor :: "'s krb5_lib \<Rightarrow> string \<Rightarrow> 's \<Rightarrow> (Keytab, 's) res" where
  "Keytab_ctor L fullpath =
     bnd (Init L (Keytab_DefaultName L) (Keytab_ConfigName L)
            \<lparr>m_fullpath = fullpath, m_program_type = ''manual'', m_keytab = None\<rparr>)
       (\<lambda>obj.
          bnd (native_read ''krb5_kt_resolve'' (\<lambda>s. krb5_kt_resolve L s (FileName obj)))
            (\<lambda>(error_code, handle).
               if error_code \<noteq> 0
               then bnd (PrintError error_code ''krb5_kt_resolve'') (\<lambda>_. ret obj)
               else ret (obj\<lparr>m_keytab := Some handle\<rparr>)))"

text \<open>
  \<^verbatim>\<open>Keytab::GetPrincipal\<close>. The local \<^verbatim>\<open>entry\<close> has no initialiser; only a failed
  \<^verbatim>\<open>krb5_kt_start_seq_get\<close> returns early.
\<close>

definition report :: "krb5_error_code \<Rightarrow> string \<Rightarrow> 's \<Rightarrow> (unit, 's) res" where
  "report error_code message = (if error_code \<noteq> 0 then PrintError error_code message else ret ())"

definition Keytab_GetPrincipal :: "'s krb5_lib \<Rightarrow> Keytab \<Rightarrow> 's \<Rightarrow> (Principal option, 's) res" where
  "Keytab_GetPrincipal L kt =
     bnd (native_read ''krb5_kt_start_seq_get'' (\<lambda>s. krb5_kt_start_seq_get L s (m_keytab kt)))
       (\<lambda>error_code.
          if error_code \<noteq> 0
          then bnd (PrintError error_code ''krb5_kt_start_seq_get'') (\<lambda>_. ret None)
          else
            bnd (native_read ''krb5_kt_next_entry'' (\<lambda>s. krb5_kt_next_entry L s (m_keytab kt)))
              (\<lambda>(error_code, written).
                 bnd (report error_code ''krb5_kt_next_entry'')
                   (\<lambda>_. let entry = (if error_code \<noteq> 0 then Indeterminate else Val written) in
                      bnd (native_read ''krb5_kt_end_seq_get''
                             (\<lambda>s. krb5_kt_end_seq_get L s (m_keytab kt)))
                        (\<lambda>error_code.
                           bnd (report error_code ''krb5_kt_end_seq_get'')
                             (\<lambda>_. case entry of
                                    Indeterminate \<Rightarrow> raise UninitRead
                                  | Val e \<Rightarrow>
                                      bnd (Principal_ctor L (Val (entry_principal e)))
                                        (\<lambda>p. bnd (native_read ''krb5_kt_free_entry''
                                                    (\<lambda>s. krb5_kt_free_entry L s e))
                                               (\<lambda>error_code.
                                                  bnd (report error_code ''krb5_kt_free_entry'')
                                                    (\<lambda>_. ret (Some p)))))))))"

text \<open>
  \<^verbatim>\<open>Keytab::GetCreds\<close>. The local \<^verbatim>\<open>creds\<close> has no initialiser; the \<^verbatim>\<open>Creds\<close> object
  is made from it whether or not the exchange has written it.
\<close>

definition Keytab_GetCreds :: "'s krb5_lib \<Rightarrow> Keytab \<Rightarrow> 's \<Rightarrow> (Creds option, 's) res" where
  "Keytab_GetCreds L kt =
     bnd (Keytab_GetPrincipal L kt)
       (\<lambda>principal.
          case principal of
            None \<Rightarrow> ret None
          | Some p \<Rightarrow>
              bnd (native_write ''krb5_get_init_creds_keytab''
                     (\<lambda>s. krb5_get_init_creds_keytab L s (Ptr p) (m_keytab kt)))
                (\<lambda>(error_code, written).
                   bnd (report error_code ''krb5_get_init_creds_keytab'')
                     (\<lambda>_. let creds = (if error_code \<noteq> 0 then Indeterminate else Val written) in
                        ret (Some \<lparr>m_creds = creds\<rparr>))))"

section \<open>Ccache\<close>

text \<open>Member \<^verbatim>\<open>ccache_\<close>, \<^verbatim>\<open>nullptr\<close> until \<^verbatim>\<open>krb5_cc_resolve\<close> has written it.\<close>

record Ccache = FileInterface +
  m_ccache :: krb5_ccache

definition Ccache_DefaultName :: "'s krb5_lib \<Rightarrow> 's \<Rightarrow> (string, 's) res" where
  "Ccache_DefaultName L = native_read ''krb5_cc_default_name'' (krb5_cc_default_name L)"

definition Ccache_ConfigName :: "'s krb5_lib \<Rightarrow> 's \<Rightarrow> (string, 's) res" where
  "Ccache_ConfigName L =
     bnd (native_read ''cfg.variable(system/progpath)'' (\<lambda>s. cfg_variable L s ''system/progpath'' None))
       (\<lambda>fullpath.
          bnd (native_read ''cfg.variable(kerberos/ccache)''
                 (\<lambda>s. cfg_variable L s ''kerberos/ccache'' (Some fullpath)))
            (\<lambda>fullpath.
               bnd (native_read ''cfg.variable(system/progname)'' (\<lambda>s. cfg_variable L s ''system/progname'' None))
                 (\<lambda>progname. ret (fullpath @ ''/krb5cc_'' @ progname))))"

definition Ccache_ctor :: "'s krb5_lib \<Rightarrow> string \<Rightarrow> 's \<Rightarrow> (Ccache, 's) res" where
  "Ccache_ctor L fullpath =
     bnd (Init L (Ccache_DefaultName L) (Ccache_ConfigName L)
            \<lparr>m_fullpath = fullpath, m_program_type = ''manual'', m_ccache = None\<rparr>)
       (\<lambda>obj.
          bnd (native_write ''setenv'' (\<lambda>s. ((), setenv L s ''KRB5CCNAME'' (FileName obj))))
            (\<lambda>_. bnd (native_read ''krb5_cc_resolve'' (\<lambda>s. krb5_cc_resolve L s (FileName obj)))
               (\<lambda>(error_code, handle).
                  if error_code \<noteq> 0
                  then bnd (PrintError error_code ''krb5_cc_resolve'') (\<lambda>_. ret obj)
                  else ret (obj\<lparr>m_ccache := Some handle\<rparr>))))"

definition Create ::
  "'s krb5_lib \<Rightarrow> Ccache \<Rightarrow> Principal option \<Rightarrow> Creds option \<Rightarrow> 's \<Rightarrow> (bool, 's) res" where
  "Create L cc principal' creds' =
     (case principal' of
        None \<Rightarrow> ret False
      | Some p \<Rightarrow>
          (case creds' of
             None \<Rightarrow> ret False
           | Some c \<Rightarrow>
               bnd (native_write ''krb5_cc_initialize''
                      (\<lambda>s. krb5_cc_initialize L s (m_ccache cc) (Ptr p)))
                 (\<lambda>error_code.
                    if error_code \<noteq> 0 then ret False
                    else
                      bnd (read_creds c)
                        (\<lambda>k. bnd (native_write ''krb5_cc_store_cred''
                                    (\<lambda>s. krb5_cc_store_cred L s (m_ccache cc) k))
                               (\<lambda>error_code.
                                  bnd (report error_code ''krb5_cc_store_cred'')
                                    (\<lambda>_. ret (error_code = 0)))))))"

definition Ccache_GetPrincipal :: "'s krb5_lib \<Rightarrow> Ccache \<Rightarrow> 's \<Rightarrow> (Principal option, 's) res" where
  "Ccache_GetPrincipal L cc =
     bnd (native_read ''krb5_cc_get_principal'' (\<lambda>s. krb5_cc_get_principal L s (m_ccache cc)))
       (\<lambda>(error_code, principal).
          if error_code = 0
          then bnd (Principal_ctor L (Val principal)) (\<lambda>p. ret (Some p))
          else bnd (PrintError error_code ''krb5_cc_get_principal'') (\<lambda>_. ret None))"

text \<open>\<^verbatim>\<open>KRB5_TGS_NAME\<close>, the first component of a ticket-granting service's name.\<close>

definition KRB5_TGS_NAME :: string where
  "KRB5_TGS_NAME = ''krbtgt''"

definition GetServerPrincipal ::
  "'s krb5_lib \<Rightarrow> Ccache \<Rightarrow> string \<Rightarrow> 's \<Rightarrow> (Principal option, 's) res" where
  "GetServerPrincipal L cc realm_name =
     bnd (native_read ''krb5_build_principal_ext''
            (\<lambda>s. krb5_build_principal_ext L s realm_name [KRB5_TGS_NAME, realm_name]))
       (\<lambda>(error_code, principal).
          if error_code = 0
          then bnd (Principal_ctor L (Val principal)) (\<lambda>p. ret (Some p))
          else bnd (PrintError error_code ''krb5_build_principal_ext'') (\<lambda>_. ret None))"

text \<open>
  \<^verbatim>\<open>Ccache::GetCreds\<close>. Both tests are of \<^verbatim>\<open>principal_client\<close>, as in the source; the
  server principal is dereferenced without a test.
\<close>

definition Ccache_GetCreds :: "'s krb5_lib \<Rightarrow> Ccache \<Rightarrow> 's \<Rightarrow> (Creds option, 's) res" where
  "Ccache_GetCreds L cc =
     bnd (Ccache_GetPrincipal L cc)
       (\<lambda>principal_client.
          case principal_client of
            None \<Rightarrow> ret None
          | Some pc \<Rightarrow>
              bnd (Realm pc)
                (\<lambda>realm_name.
                   bnd (GetServerPrincipal L cc realm_name)
                     (\<lambda>principal_server.
                        if principal_client = None then ret None
                        else
                          (case principal_server of
                             None \<Rightarrow> raise NullDeref
                           | Some ps \<Rightarrow>
                               let creds_find =
                                     \<lparr>client = Ptr pc, server = Ptr ps,
                                      times = \<lparr>starttime = 0, endtime = 0, renew_till = 0\<rparr>,
                                      ticket = []\<rparr>
                               in bnd (native_read ''krb5_cc_retrieve_cred''
                                         (\<lambda>s. krb5_cc_retrieve_cred L s (m_ccache cc) creds_find))
                                    (\<lambda>(error_code, creds).
                                       if error_code = 0
                                       then ret (Some \<lparr>m_creds = Val creds\<rparr>)
                                       else bnd (PrintError error_code ''krb5_cc_retrieve_cred'')
                                              (\<lambda>_. ret None))))))"

text \<open>
  \<^verbatim>\<open>Ccache::Update\<close>. The renewed credential is written into the \<^verbatim>\<open>Creds\<close> object
  read from the cache, which is then stored again.
\<close>

definition Update :: "'s krb5_lib \<Rightarrow> Ccache \<Rightarrow> 's \<Rightarrow> (bool, 's) res" where
  "Update L cc =
     bnd (Ccache_GetPrincipal L cc)
       (\<lambda>principal.
          bnd (Ccache_GetCreds L cc)
            (\<lambda>creds.
               case principal of
                 None \<Rightarrow> ret False
               | Some p \<Rightarrow>
                   (case creds of
                      None \<Rightarrow> ret False
                    | Some c \<Rightarrow>
                        bnd (native_write ''krb5_get_renewed_creds''
                               (\<lambda>s. krb5_get_renewed_creds L s (Ptr p) (m_ccache cc)))
                          (\<lambda>(error_code, written).
                             if error_code \<noteq> 0
                             then bnd (PrintError error_code ''krb5_get_renewed_creds'')
                                    (\<lambda>_. ret False)
                             else Create L cc principal (Some (c\<lparr>m_creds := Val written\<rparr>))))))"

section \<open>ServiceImpl\<close>

text \<open>
  Members \<^verbatim>\<open>keytab_\<close> and \<^verbatim>\<open>ccache_\<close>, both empty when the context could not be
  initialised. The lock is recursive and the model has one thread, so taking it has no
  effect here.
\<close>

record ServiceImpl =
  svc_keytab :: "Keytab option"
  svc_ccache :: "Ccache option"

text \<open>
  The read-back of the credential after a successful creation or renewal, for the log:
  \<^verbatim>\<open>auto ccache_creds = ccache_->getCreds(); ... ccache_creds->TimesInfo()\<close>.
\<close>

definition log_times :: "'s krb5_lib \<Rightarrow> Ccache \<Rightarrow> 's \<Rightarrow> (unit, 's) res" where
  "log_times L cc =
     bnd (Ccache_GetCreds L cc)
       (\<lambda>ccache_creds.
          case ccache_creds of
            None \<Rightarrow> raise NullDeref
          | Some c \<Rightarrow> bnd (TimesInfo L c) (\<lambda>ts. emit (InfoTimes ts)))"

definition CreateCcache :: "'s krb5_lib \<Rightarrow> ServiceImpl \<Rightarrow> 's \<Rightarrow> (bool, 's) res" where
  "CreateCcache L svc =
     (case svc_ccache svc of
        None \<Rightarrow> ret False
      | Some cc \<Rightarrow>
          (case svc_keytab svc of
             None \<Rightarrow> ret False
           | Some kt \<Rightarrow>
               bnd (emit (Info ''Create ccache''))
                 (\<lambda>_. bnd (Keytab_GetPrincipal L kt)
                    (\<lambda>principal.
                       bnd (Keytab_GetCreds L kt)
                         (\<lambda>creds.
                            bnd (Create L cc principal creds)
                              (\<lambda>res.
                                 if res then bnd (log_times L cc) (\<lambda>_. ret res)
                                 else ret res))))))"

definition UpdateCcache :: "'s krb5_lib \<Rightarrow> ServiceImpl \<Rightarrow> 's \<Rightarrow> (bool, 's) res" where
  "UpdateCcache L svc =
     (case svc_ccache svc of
        None \<Rightarrow> ret False
      | Some cc \<Rightarrow>
          bnd (FileExists L cc)
            (\<lambda>file_exists.
               if \<not> file_exists then CreateCcache L svc
               else
                 bnd (Ccache_GetCreds L cc)
                   (\<lambda>creds.
                      case creds of
                        None \<Rightarrow> ret False
                      | Some c \<Rightarrow>
                          bnd (Creds_State L c)
                            (\<lambda>state.
                               case state of
                                 Renew \<Rightarrow>
                                   bnd (emit (Info ''Update ccache''))
                                     (\<lambda>_. bnd (Update L cc)
                                        (\<lambda>res.
                                           if res then bnd (log_times L cc) (\<lambda>_. ret res)
                                           else bnd (emit (Info ''Update ccache error. REINIT''))
                                                  (\<lambda>_. CreateCcache L svc)))
                               | Reinit \<Rightarrow> CreateCcache L svc
                               | None_State \<Rightarrow> ret True))))"

section \<open>The path resolution as the specification words it\<close>

text \<open>
  An explicit path wins; otherwise the mode read from the configuration chooses between
  the computed default (mode \<^verbatim>\<open>manual\<close>) and the configuration-derived default.
\<close>

definition resolved_path :: "string \<Rightarrow> string \<Rightarrow> string \<Rightarrow> string \<Rightarrow> string" where
  "resolved_path explicit mode computed_default config_default =
     (if explicit \<noteq> [] then explicit
      else if mode = ''manual'' then computed_default
      else config_default)"

section \<open>Runs that leave the outside world as it was\<close>

definition reads_only :: "('s \<Rightarrow> ('a, 's) res) \<Rightarrow> bool" where
  "reads_only m =
     (\<forall>s. case m s of Inl f \<Rightarrow> True | Inr (x, s', es) \<Rightarrow> s' = s \<and> \<not> list_ex mutation es)"

section \<open>A simulated library for running scenarios\<close>

text \<open>
  The theorems below hold for every library. To run the code on concrete inputs, this
  section gives one library: a clock, a set of files, a configuration, a key table (a
  list of entries), the answers of the key distribution centre to an initial exchange
  and to a renewal (\<open>None\<close>: no answer), a credential cache (its principal and its
  credentials, found by client and server name) and the names of native functions that
  fail in the scenario.
\<close>

record sim =
  sim_now :: krb5_timestamp
  sim_files :: "string list"
  sim_config :: "(string \<times> string) list"
  sim_keytab :: "krb5_principal_data list"
  sim_issue :: "krb5_creds option"
  sim_renewal :: "krb5_creds option"
  sim_cache_principal :: krb5_principal
  sim_cache_creds :: "krb5_creds list"
  sim_failing :: "string list"
  sim_env :: "(string \<times> string) list"

definition failing :: "sim \<Rightarrow> string \<Rightarrow> bool" where
  "failing s name = (name \<in> set (sim_failing s))"

text \<open>Error codes of the library and of the system, as \<^verbatim>\<open>krb5.h\<close> and \<^verbatim>\<open>errno.h\<close> number them.\<close>

definition EIO :: krb5_error_code where "EIO = 5"
definition ENOMEM :: krb5_error_code where "ENOMEM = 12"
definition KRB5_KT_END :: krb5_error_code where "KRB5_KT_END = - 1765328202"
definition KRB5_CC_NOTFOUND :: krb5_error_code where "KRB5_CC_NOTFOUND = - 1765328243"
definition KRB5_FCC_NOFILE :: krb5_error_code where "KRB5_FCC_NOFILE = - 1765328189"
definition KRB5_KDC_UNREACH :: krb5_error_code where "KRB5_KDC_UNREACH = - 1765328228"

text \<open>What an output parameter holds when the library has not written it is never read.\<close>

definition unwritten_principal :: krb5_principal_data where
  "unwritten_principal = \<lparr>realm = [], components = []\<rparr>"

definition unwritten_creds :: krb5_creds where
  "unwritten_creds =
     \<lparr>client = None, server = None,
      times = \<lparr>starttime = 0, endtime = 0, renew_till = 0\<rparr>, ticket = []\<rparr>"

definition sim_timeofday :: "sim \<Rightarrow> krb5_error_code \<times> krb5_timestamp" where
  "sim_timeofday s = (if failing s ''krb5_timeofday'' then (EIO, 0) else (0, sim_now s))"

definition sim_copy_principal ::
  "sim \<Rightarrow> krb5_principal_data \<Rightarrow> krb5_error_code \<times> krb5_principal_data" where
  "sim_copy_principal s p =
     (if failing s ''krb5_copy_principal'' then (ENOMEM, unwritten_principal) else (0, p))"

definition sim_kt_resolve :: "sim \<Rightarrow> string \<Rightarrow> krb5_error_code \<times> nat" where
  "sim_kt_resolve s name = (if failing s ''krb5_kt_resolve'' then (ENOMEM, 0) else (0, 1))"

definition sim_kt_start_seq_get :: "sim \<Rightarrow> krb5_keytab \<Rightarrow> krb5_error_code" where
  "sim_kt_start_seq_get s kt = (if failing s ''krb5_kt_start_seq_get'' then EIO else 0)"

definition sim_kt_next_entry :: "sim \<Rightarrow> krb5_keytab \<Rightarrow> krb5_error_code \<times> krb5_keytab_entry" where
  "sim_kt_next_entry s kt =
     (case sim_keytab s of
        [] \<Rightarrow> (KRB5_KT_END, \<lparr>entry_principal = unwritten_principal\<rparr>)
      | p # rest \<Rightarrow> (0, \<lparr>entry_principal = p\<rparr>))"

definition sim_kt_end_seq_get :: "sim \<Rightarrow> krb5_keytab \<Rightarrow> krb5_error_code" where
  "sim_kt_end_seq_get s kt = (if failing s ''krb5_kt_end_seq_get'' then EIO else 0)"

definition sim_kt_free_entry :: "sim \<Rightarrow> krb5_keytab_entry \<Rightarrow> krb5_error_code" where
  "sim_kt_free_entry s e = 0"

definition sim_kt_default_name :: "sim \<Rightarrow> krb5_error_code \<times> string" where
  "sim_kt_default_name s =
     (if failing s ''krb5_kt_default_name'' then (ENOMEM, []) else (0, ''FILE:/etc/krb5.keytab''))"

definition sim_get_init_creds_keytab ::
  "sim \<Rightarrow> krb5_principal \<Rightarrow> krb5_keytab \<Rightarrow> (krb5_error_code \<times> krb5_creds) \<times> sim" where
  "sim_get_init_creds_keytab s p kt =
     (case sim_issue s of
        None \<Rightarrow> ((KRB5_KDC_UNREACH, unwritten_creds), s)
      | Some c \<Rightarrow> ((0, c), s))"

definition sim_cc_resolve :: "sim \<Rightarrow> string \<Rightarrow> krb5_error_code \<times> nat" where
  "sim_cc_resolve s name = (if failing s ''krb5_cc_resolve'' then (ENOMEM, 0) else (0, 2))"

definition sim_cc_default_name :: "sim \<Rightarrow> string" where
  "sim_cc_default_name s = ''FILE:/tmp/krb5cc_0''"

definition sim_cc_initialize :: "sim \<Rightarrow> krb5_ccache \<Rightarrow> krb5_principal \<Rightarrow> krb5_error_code \<times> sim" where
  "sim_cc_initialize s cc p =
     (if failing s ''krb5_cc_initialize'' then (EIO, s)
      else (0, s\<lparr>sim_cache_principal := p, sim_cache_creds := []\<rparr>))"

definition sim_cc_store_cred :: "sim \<Rightarrow> krb5_ccache \<Rightarrow> krb5_creds \<Rightarrow> krb5_error_code \<times> sim" where
  "sim_cc_store_cred s cc c =
     (if failing s ''krb5_cc_store_cred'' then (EIO, s)
      else (0, s\<lparr>sim_cache_creds := sim_cache_creds s @ [c]\<rparr>))"

definition sim_cc_get_principal :: "sim \<Rightarrow> krb5_ccache \<Rightarrow> krb5_error_code \<times> krb5_principal_data" where
  "sim_cc_get_principal s cc =
     (case sim_cache_principal s of
        None \<Rightarrow> (KRB5_FCC_NOFILE, unwritten_principal)
      | Some p \<Rightarrow> (0, p))"

definition sim_cc_retrieve_cred ::
  "sim \<Rightarrow> krb5_ccache \<Rightarrow> krb5_creds \<Rightarrow> krb5_error_code \<times> krb5_creds" where
  "sim_cc_retrieve_cred s cc mcreds =
     (if failing s ''krb5_cc_retrieve_cred'' then (EIO, unwritten_creds)
      else
        (case filter (\<lambda>c. client c = client mcreds \<and> server c = server mcreds) (sim_cache_creds s) of
           [] \<Rightarrow> (KRB5_CC_NOTFOUND, unwritten_creds)
         | c # rest \<Rightarrow> (0, c)))"

definition sim_get_renewed_creds ::
  "sim \<Rightarrow> krb5_principal \<Rightarrow> krb5_ccache \<Rightarrow> (krb5_error_code \<times> krb5_creds) \<times> sim" where
  "sim_get_renewed_creds s p cc =
     (case sim_renewal s of
        None \<Rightarrow> ((KRB5_KDC_UNREACH, unwritten_creds), s)
      | Some c \<Rightarrow> ((0, c), s))"

definition sim_build_principal_ext ::
  "sim \<Rightarrow> string \<Rightarrow> string list \<Rightarrow> krb5_error_code \<times> krb5_principal_data" where
  "sim_build_principal_ext s r cs =
     (if failing s ''krb5_build_principal_ext'' then (ENOMEM, unwritten_principal)
      else (0, \<lparr>realm = r, components = cs\<rparr>))"

definition sim_cfg_variable :: "sim \<Rightarrow> string \<Rightarrow> string option \<Rightarrow> string" where
  "sim_cfg_variable s key dflt =
     (case map_of (sim_config s) key of
        Some v \<Rightarrow> v
      | None \<Rightarrow> (case dflt of Some d \<Rightarrow> d | None \<Rightarrow> []))"

definition sim_fs_exists :: "sim \<Rightarrow> string \<Rightarrow> bool option" where
  "sim_fs_exists s path =
     (if failing s ''fs::exists'' then None else Some (path \<in> set (sim_files s)))"

definition sim_setenv :: "sim \<Rightarrow> string \<Rightarrow> string \<Rightarrow> sim" where
  "sim_setenv s name v = s\<lparr>sim_env := (name, v) # sim_env s\<rparr>"

definition sim_lib :: "sim krb5_lib" where
  "sim_lib =
     \<lparr>krb5_timeofday = sim_timeofday,
      krb5_copy_principal = sim_copy_principal,
      krb5_kt_resolve = sim_kt_resolve,
      krb5_kt_start_seq_get = sim_kt_start_seq_get,
      krb5_kt_next_entry = sim_kt_next_entry,
      krb5_kt_end_seq_get = sim_kt_end_seq_get,
      krb5_kt_free_entry = sim_kt_free_entry,
      krb5_kt_default_name = sim_kt_default_name,
      krb5_get_init_creds_keytab = sim_get_init_creds_keytab,
      krb5_cc_resolve = sim_cc_resolve,
      krb5_cc_default_name = sim_cc_default_name,
      krb5_cc_initialize = sim_cc_initialize,
      krb5_cc_store_cred = sim_cc_store_cred,
      krb5_cc_get_principal = sim_cc_get_principal,
      krb5_cc_retrieve_cred = sim_cc_retrieve_cred,
      krb5_get_renewed_creds = sim_get_renewed_creds,
      krb5_build_principal_ext = sim_build_principal_ext,
      cfg_variable = sim_cfg_variable,
      fs_exists = sim_fs_exists,
      setenv = sim_setenv\<rparr>"

text \<open>
  The scenarios: a service \<^verbatim>\<open>host/app@EXAMPLE.ORG\<close> with one key-table entry, whose
  ticket-granting ticket runs from 1000 to 2000 and can be renewed until 5000.
\<close>

definition app_principal :: krb5_principal_data where
  "app_principal = \<lparr>realm = ''EXAMPLE.ORG'', components = [''host'', ''app'']\<rparr>"

definition tgs_principal :: krb5_principal_data where
  "tgs_principal = \<lparr>realm = ''EXAMPLE.ORG'', components = [''krbtgt'', ''EXAMPLE.ORG'']\<rparr>"

definition tgt :: "krb5_timestamp \<Rightarrow> krb5_timestamp \<Rightarrow> krb5_timestamp \<Rightarrow> krb5_creds" where
  "tgt t1 t2 t3 =
     \<lparr>client = Some app_principal, server = Some tgs_principal,
      times = \<lparr>starttime = t1, endtime = t2, renew_till = t3\<rparr>, ticket = ''ticket''\<rparr>"

definition the_keytab :: Keytab where
  "the_keytab =
     \<lparr>m_fullpath = ''/opt/app/keytab'', m_program_type = ''service'', m_keytab = Some 1\<rparr>"

definition the_ccache :: Ccache where
  "the_ccache =
     \<lparr>m_fullpath = ''FILE:/opt/app/krb5cc_app'', m_program_type = ''service'', m_ccache = Some 2\<rparr>"

definition the_service :: ServiceImpl where
  "the_service = \<lparr>svc_keytab = Some the_keytab, svc_ccache = Some the_ccache\<rparr>"

text \<open>
  The outside world at time \<open>t\<close>, the cache holding the ticket above, the key
  distribution centre ready to issue a ticket from 3000 to 4000 and to renew until 4000.
\<close>

definition world :: "krb5_timestamp \<Rightarrow> sim" where
  "world t =
     \<lparr>sim_now = t,
      sim_files = [''/opt/app/keytab'', ''/opt/app/krb5cc_app''],
      sim_config = [(''system/type'', ''service''), (''system/progpath'', ''/opt/app''),
                    (''system/progname'', ''app'')],
      sim_keytab = [app_principal],
      sim_issue = Some (tgt 3000 4000 9000),
      sim_renewal = Some (tgt 3000 4000 5000),
      sim_cache_principal = Some app_principal,
      sim_cache_creds = [tgt 1000 2000 5000],
      sim_failing = [],
      sim_env = []\<rparr>"

text \<open>The events of the runs in these scenarios.\<close>

definition keytab_principal_events :: "event list" where
  "keytab_principal_events =
     [Call ''krb5_kt_start_seq_get'', Call ''krb5_kt_next_entry'', Call ''krb5_kt_end_seq_get'',
      Call ''krb5_copy_principal'', Call ''krb5_kt_free_entry'']"

definition ccache_creds_events :: "event list" where
  "ccache_creds_events =
     [Call ''krb5_cc_get_principal'', Call ''krb5_copy_principal'',
      Call ''krb5_build_principal_ext'', Call ''krb5_copy_principal'',
      Call ''krb5_cc_retrieve_cred'']"

definition create_events :: "krb5_timestamp \<Rightarrow> event list" where
  "create_events t =
     Info ''Create ccache'' # keytab_principal_events @ keytab_principal_events @
     [Call ''krb5_get_init_creds_keytab'', Call ''krb5_cc_initialize'',
      Call ''krb5_cc_store_cred''] @
     ccache_creds_events @ [Call ''krb5_timeofday'', InfoTimes [t, 3000, 4000, 9000]]"

section \<open>Sequencing\<close>

lemma bnd_Inr: "m s = Inr (x, s1, e1) \<Longrightarrow>
  bnd m f s = (case f x s1 of Inl e \<Rightarrow> Inl e | Inr (y, s2, e2) \<Rightarrow> Inr (y, s2, e1 @ e2))"
  by (simp add: bnd_def)

lemma bnd_Inl: "m s = Inl e \<Longrightarrow> bnd m f s = Inl e"
  by (simp add: bnd_def)

lemma bnd_ret: "bnd (ret x) f s = f x s"
  by (simp add: bnd_def ret_def split: sum.splits prod.splits)

lemma reads_onlyD:
  assumes "reads_only m" and "m s = Inr (x, s', es)"
  shows "s' = s" and "\<not> list_ex mutation es"
proof -
  from assms(1) have "case m s of Inl f \<Rightarrow> True | Inr (x, s', es) \<Rightarrow> s' = s \<and> \<not> list_ex mutation es"
    unfolding reads_only_def by (rule spec)
  with assms(2) show "s' = s" and "\<not> list_ex mutation es" by simp_all
qed

lemma reads_only_ret: "reads_only (ret x)"
  by (simp add: reads_only_def ret_def)

lemma reads_only_raise: "reads_only (raise f)"
  by (simp add: reads_only_def raise_def)

lemma reads_only_emit: "\<not> mutation e \<Longrightarrow> reads_only (emit e)"
  by (simp add: reads_only_def emit_def)

lemma reads_only_native_read: "\<not> mutation (Call name) \<Longrightarrow> reads_only (native_read name f)"
  by (simp add: reads_only_def native_read_def)

lemma reads_only_bnd:
  assumes "reads_only m" and "\<And>x. reads_only (f x)"
  shows "reads_only (bnd m f)"
  unfolding reads_only_def
proof
  fix s
  show "case bnd m f s of Inl f \<Rightarrow> True | Inr (x, s', es) \<Rightarrow> s' = s \<and> \<not> list_ex mutation es"
  proof (cases "m s")
    case (Inl e)
    then show ?thesis by (simp add: bnd_def)
  next
    case (Inr r)
    obtain x s1 e1 where r: "r = (x, s1, e1)" by (cases r)
    from Inr r have ms: "m s = Inr (x, s1, e1)" by simp
    have m1: "s1 = s" and m2: "\<not> list_ex mutation e1"
      using reads_onlyD [OF assms(1) ms] by simp_all
    show ?thesis
    proof (cases "f x s1")
      case (Inl e)
      with ms show ?thesis by (simp add: bnd_def)
    next
      case (Inr r2)
      obtain y s2 e2 where r2: "r2 = (y, s2, e2)" by (cases r2)
      from Inr r2 have fs: "f x s1 = Inr (y, s2, e2)" by simp
      have f1: "s2 = s1" and f2: "\<not> list_ex mutation e2"
        using reads_onlyD [OF assms(2) fs] by simp_all
      from ms fs m1 m2 f1 f2 show ?thesis by (simp add: bnd_def)
    qed
  qed
qed

section \<open>The functions that only read\<close>

lemma reads_only_if: "reads_only a \<Longrightarrow> reads_only b \<Longrightarrow> reads_only (if c then a else b)"
  by simp

lemma reads_only_prod: "(\<And>a b. reads_only (g a b)) \<Longrightarrow> reads_only (case_prod g p)"
  by (cases p) simp

lemma reads_only_option:
  "reads_only a \<Longrightarrow> (\<And>x. reads_only (g x)) \<Longrightarrow> reads_only (case_option a g v)"
  by (cases v) simp_all

lemma reads_only_cell:
  "reads_only a \<Longrightarrow> (\<And>x. reads_only (g x)) \<Longrightarrow> reads_only (case_cell a g v)"
  by (cases v) simp_all

lemmas reads_only_intros =
  reads_only_bnd reads_only_ret reads_only_raise reads_only_emit reads_only_native_read
  reads_only_if reads_only_prod reads_only_option reads_only_cell

lemma reads_only_PrintError: "reads_only (PrintError c m)"
  by (simp add: PrintError_def reads_only_emit mutation_def)

lemma reads_only_report: "reads_only (report c m)"
  by (simp add: report_def reads_only_PrintError reads_only_ret)

lemma reads_only_Principal_ctor: "reads_only (Principal_ctor L src)"
  unfolding Principal_ctor_def
  by (intro reads_only_intros reads_only_PrintError) (simp_all add: mutation_def)

lemma reads_only_Realm: "reads_only (Realm p)"
  unfolding Realm_def by (intro reads_only_intros)

lemma reads_only_read_creds: "reads_only (read_creds c)"
  unfolding read_creds_def by (intro reads_only_intros)

lemma reads_only_time_now: "reads_only (time_now L)"
  unfolding time_now_def by (intro reads_only_intros) (simp add: mutation_def)

lemma reads_only_Creds_State: "reads_only (Creds_State L c)"
  unfolding Creds_State_def EndTime_def RenewTime_def
  by (intro reads_only_intros reads_only_time_now reads_only_read_creds)

lemma reads_only_TimesInfo: "reads_only (TimesInfo L c)"
  unfolding TimesInfo_def StartTime_def EndTime_def RenewTime_def
  by (intro reads_only_intros reads_only_time_now reads_only_read_creds)

lemma reads_only_FileExists: "reads_only (FileExists L obj)"
  unfolding FileExists_def Let_def
  by (intro reads_only_intros) (simp_all add: mutation_def)

lemma reads_only_Ccache_GetPrincipal: "reads_only (Ccache_GetPrincipal L cc)"
  unfolding Ccache_GetPrincipal_def
  by (intro reads_only_intros reads_only_PrintError reads_only_Principal_ctor)
     (simp_all add: mutation_def)

lemma reads_only_GetServerPrincipal: "reads_only (GetServerPrincipal L cc r)"
  unfolding GetServerPrincipal_def
  by (intro reads_only_intros reads_only_PrintError reads_only_Principal_ctor)
     (simp_all add: mutation_def)

lemma reads_only_Ccache_GetCreds: "reads_only (Ccache_GetCreds L cc)"
  unfolding Ccache_GetCreds_def Let_def
  by (intro reads_only_intros reads_only_PrintError reads_only_Ccache_GetPrincipal
        reads_only_GetServerPrincipal reads_only_Realm)
     (simp_all add: mutation_def)

section \<open>The state of a credential\<close>

lemma Creds_State_run:
  "Creds_State L \<lparr>m_creds = Val k\<rparr> s =
     Inr (if sint (endtime (times k)) \<le> sint (now_of (krb5_timeofday L s))
          then (if sint (renew_till (times k)) \<le> sint (now_of (krb5_timeofday L s))
                then Reinit else Renew)
          else None_State, s, [Call ''krb5_timeofday''])"
  by (simp add: Creds_State_def time_now_def EndTime_def RenewTime_def read_creds_def
        bnd_def ret_def native_read_def)

lemma now_of_world: "now_of (krb5_timeofday sim_lib (world t)) = t"
  by (simp add: now_of_def sim_lib_def sim_timeofday_def failing_def world_def)

text \<open>
  C2, as amended. For every credential and every time \<open>now\<close> that \<^verbatim>\<open>state()\<close> reads
  from the library (0 when the library returned an error), \<^verbatim>\<open>state()\<close> returns, leaving
  the outside world as it was: Valid (\<open>None_State\<close>) exactly when \<open>now < end_time\<close>;
  NeedsRenew exactly when \<open>end_time \<le> now < renew_until_time\<close>; NeedsReinit exactly
  when \<open>end_time \<le> now\<close> and \<open>renew_until_time \<le> now\<close>. So where
  \<open>renew_until_time \<le> now < end_time\<close> the state is Valid, not NeedsReinit.
\<close>

theorem Creds_State_classification:
  "\<exists>st. Creds_State L \<lparr>m_creds = Val k\<rparr> s = Inr (st, s, [Call ''krb5_timeofday'']) \<and>
     (st = None_State) = (sint (now_of (krb5_timeofday L s)) < sint (endtime (times k))) \<and>
     (st = Renew) =
       (sint (endtime (times k)) \<le> sint (now_of (krb5_timeofday L s)) \<and>
        sint (now_of (krb5_timeofday L s)) < sint (renew_till (times k))) \<and>
     (st = Reinit) =
       (sint (endtime (times k)) \<le> sint (now_of (krb5_timeofday L s)) \<and>
        sint (renew_till (times k)) \<le> sint (now_of (krb5_timeofday L s)))"
  by (simp add: Creds_State_run)

theorem Creds_State_classification_witness:
  "Creds_State sim_lib \<lparr>m_creds = Val (tgt 1000 2000 5000)\<rparr> (world 2500) =
     Inr (Renew, world 2500, [Call ''krb5_timeofday''])"
proof -
  obtain st where
    run: "Creds_State sim_lib \<lparr>m_creds = Val (tgt 1000 2000 5000)\<rparr> (world 2500) =
            Inr (st, world 2500, [Call ''krb5_timeofday''])" and
    renew: "(st = Renew) =
       (sint (endtime (times (tgt 1000 2000 5000))) \<le> sint (now_of (krb5_timeofday sim_lib (world 2500))) \<and>
        sint (now_of (krb5_timeofday sim_lib (world 2500))) < sint (renew_till (times (tgt 1000 2000 5000))))"
    using Creds_State_classification [of sim_lib "tgt 1000 2000 5000" "world 2500"] by blast
  from renew have "st = Renew" by (simp add: now_of_world tgt_def)
  with run show ?thesis by simp
qed

text \<open>
  C2 as stated fails: at time 70 a credential that ends at 100 and can be renewed
  until 50 has \<open>renew_until_time \<le> now\<close>, and its state is Valid, not NeedsReinit.
\<close>

theorem Creds_State_Reinit_counterexample:
  "sint (renew_till (times (tgt 0 100 50))) \<le> sint (now_of (krb5_timeofday sim_lib (world 70))) \<and>
   sint (now_of (krb5_timeofday sim_lib (world 70))) < sint (endtime (times (tgt 0 100 50))) \<and>
   Creds_State sim_lib \<lparr>m_creds = Val (tgt 0 100 50)\<rparr> (world 70) =
     Inr (None_State, world 70, [Call ''krb5_timeofday''])"
  by (simp add: Creds_State_run now_of_world tgt_def)

section \<open>Creating the cache\<close>

lemmas run_defs =
  bnd_def ret_def raise_def emit_def native_read_def native_write_def PrintError_def report_def

lemmas sim_defs =
  sim_lib_def failing_def sim_timeofday_def sim_copy_principal_def sim_kt_resolve_def
  sim_kt_start_seq_get_def sim_kt_next_entry_def sim_kt_end_seq_get_def sim_kt_free_entry_def
  sim_kt_default_name_def sim_get_init_creds_keytab_def sim_cc_resolve_def
  sim_cc_default_name_def sim_cc_initialize_def sim_cc_store_cred_def sim_cc_get_principal_def
  sim_cc_retrieve_cred_def sim_get_renewed_creds_def sim_build_principal_ext_def
  sim_cfg_variable_def sim_fs_exists_def sim_setenv_def
  EIO_def ENOMEM_def KRB5_KT_END_def KRB5_CC_NOTFOUND_def KRB5_FCC_NOFILE_def
  KRB5_KDC_UNREACH_def unwritten_principal_def unwritten_creds_def

lemma Create_empty_principal: "Create L cc None cr s = Inr (False, s, [])"
  by (simp add: Create_def ret_def)

lemma Create_empty_creds: "Create L cc pr None s = Inr (False, s, [])"
  by (simp add: Create_def ret_def split: option.splits)

lemma Create_true:
  "(Create L cc (Some p) (Some c) s = Inr (True, s', es)) =
     (\<exists>k s1. m_creds c = Val k \<and>
        krb5_cc_initialize L s (m_ccache cc) (Ptr p) = (0, s1) \<and>
        krb5_cc_store_cred L s1 (m_ccache cc) k = (0, s') \<and>
        es = [Call ''krb5_cc_initialize'', Call ''krb5_cc_store_cred''])"
proof (cases "krb5_cc_initialize L s (m_ccache cc) (Ptr p)")
  case (Pair code1 s1)
  show ?thesis
  proof (cases "m_creds c")
    case Indeterminate
    with Pair show ?thesis
      by (simp add: Create_def read_creds_def run_defs)
  next
    case (Val k)
    show ?thesis
    proof (cases "krb5_cc_store_cred L s1 (m_ccache cc) k")
      case (Pair code2 s2)
      with \<open>krb5_cc_initialize L s (m_ccache cc) (Ptr p) = (code1, s1)\<close> Val show ?thesis
        by (auto simp add: Create_def read_creds_def run_defs)
    qed
  qed
qed

text \<open>
  C4. \<^verbatim>\<open>Ccache::Create\<close> returns false when either argument is empty, with no native
  call and the outside world unchanged; with both arguments present it returns true
  exactly when \<^verbatim>\<open>krb5_cc_initialize\<close> returns 0 and the following
  \<^verbatim>\<open>krb5_cc_store_cred\<close> of the credential returns 0 as well, these two being its only
  native calls.
\<close>

theorem Create_outcome:
  "Create L cc None cr s = Inr (False, s, []) \<and>
   Create L cc pr None s = Inr (False, s, []) \<and>
   (Create L cc (Some p) (Some c) s = Inr (True, s', es)) =
     (\<exists>k s1. m_creds c = Val k \<and>
        krb5_cc_initialize L s (m_ccache cc) (Ptr p) = (0, s1) \<and>
        krb5_cc_store_cred L s1 (m_ccache cc) k = (0, s') \<and>
        es = [Call ''krb5_cc_initialize'', Call ''krb5_cc_store_cred''])"
  by (simp only: Create_empty_principal Create_empty_creds Create_true simp_thms)

theorem Create_outcome_witness:
  "Create sim_lib the_ccache None (Some \<lparr>m_creds = Val (tgt 3000 4000 9000)\<rparr>) (world 1500) =
     Inr (False, world 1500, []) \<and>
   Create sim_lib the_ccache (Some \<lparr>m_principal = Some app_principal\<rparr>)
       (Some \<lparr>m_creds = Val (tgt 3000 4000 9000)\<rparr>) (world 1500) =
     Inr (True, (world 1500)\<lparr>sim_cache_creds := [tgt 3000 4000 9000]\<rparr>,
          [Call ''krb5_cc_initialize'', Call ''krb5_cc_store_cred''])"
proof -
  have "\<exists>k s1. m_creds \<lparr>m_creds = Val (tgt 3000 4000 9000)\<rparr> = Val k \<and>
        krb5_cc_initialize sim_lib (world 1500) (m_ccache the_ccache)
          (Ptr \<lparr>m_principal = Some app_principal\<rparr>) = (0, s1) \<and>
        krb5_cc_store_cred sim_lib s1 (m_ccache the_ccache) k =
          (0, (world 1500)\<lparr>sim_cache_creds := [tgt 3000 4000 9000]\<rparr>) \<and>
        [Call ''krb5_cc_initialize'', Call ''krb5_cc_store_cred''] =
          [Call ''krb5_cc_initialize'', Call ''krb5_cc_store_cred'']"
    by (simp add: sim_defs world_def Ptr_def)
  with Create_outcome [of sim_lib the_ccache "Some \<lparr>m_creds = Val (tgt 3000 4000 9000)\<rparr>"
      "world 1500" "Some \<lparr>m_principal = Some app_principal\<rparr>"
      "\<lparr>m_principal = Some app_principal\<rparr>" "\<lparr>m_creds = Val (tgt 3000 4000 9000)\<rparr>"
      "(world 1500)\<lparr>sim_cache_creds := [tgt 3000 4000 9000]\<rparr>"
      "[Call ''krb5_cc_initialize'', Call ''krb5_cc_store_cred'']"]
  show ?thesis by blast
qed

section \<open>Refreshing the cache\<close>

text \<open>
  C3. When the \<^verbatim>\<open>Ccache\<close> is present and \<^verbatim>\<open>FileExists\<close> answers false,
  \<^verbatim>\<open>UpdateCcache\<close> is \<^verbatim>\<open>CreateCcache\<close> run on the same outside world: the same
  fault or the same boolean and final state, and no events but those of the existence
  test followed by those of \<^verbatim>\<open>CreateCcache\<close>.
\<close>

theorem UpdateCcache_without_file:
  assumes "svc_ccache svc = Some cc"
    and "FileExists L cc s = Inr (False, s1, e1)"
  shows "UpdateCcache L svc s =
           (case CreateCcache L svc s of
              Inl f \<Rightarrow> Inl f
            | Inr (r, s2, e2) \<Rightarrow> Inr (r, s2, e1 @ e2))"
proof -
  have "s1 = s"
    using reads_onlyD(1) [OF reads_only_FileExists assms(2)] .
  with assms(1) show ?thesis
    by (simp add: UpdateCcache_def bnd_Inr [of "FileExists L cc" s, OF assms(2)])
qed

text \<open>
  C1. When the cache file exists and the cached credential's state is \<open>Renew\<close>,
  \<^verbatim>\<open>UpdateCcache\<close> runs \<^verbatim>\<open>Ccache::Update\<close>; when that returns false it runs
  \<^verbatim>\<open>CreateCcache\<close> on the outside world that the failed update left and returns
  that call's outcome.
\<close>

theorem UpdateCcache_renew_fallback:
  assumes "svc_ccache svc = Some cc"
    and "FileExists L cc s = Inr (True, s1, e1)"
    and "Ccache_GetCreds L cc s1 = Inr (Some c, s2, e2)"
    and "Creds_State L c s2 = Inr (Renew, s3, e3)"
  shows "UpdateCcache L svc s =
           (case Update L cc s3 of
              Inl f \<Rightarrow> Inl f
            | Inr (res, s4, e4) \<Rightarrow>
                if res
                then (case log_times L cc s4 of
                        Inl f \<Rightarrow> Inl f
                      | Inr (u, s5, e5) \<Rightarrow>
                          Inr (True, s5, e1 @ e2 @ e3 @ [Info ''Update ccache''] @ e4 @ e5))
                else (case CreateCcache L svc s4 of
                        Inl f \<Rightarrow> Inl f
                      | Inr (r, s5, e5) \<Rightarrow>
                          Inr (r, s5, e1 @ e2 @ e3 @ [Info ''Update ccache''] @ e4 @
                                 [Info ''Update ccache error. REINIT''] @ e5)))"
proof -
  have "UpdateCcache L svc s =
          (case bnd (emit (Info ''Update ccache''))
                  (\<lambda>_. bnd (Update L cc)
                     (\<lambda>res. if res then bnd (log_times L cc) (\<lambda>_. ret res)
                            else bnd (emit (Info ''Update ccache error. REINIT''))
                                   (\<lambda>_. CreateCcache L svc))) s3 of
             Inl f \<Rightarrow> Inl f
           | Inr (r, s5, e5) \<Rightarrow> Inr (r, s5, e1 @ e2 @ e3 @ e5))"
    using assms(1)
    by (simp add: UpdateCcache_def bnd_Inr [of "FileExists L cc" s, OF assms(2)] bnd_Inr [of "Ccache_GetCreds L cc" s1, OF assms(3)]
          bnd_Inr [of "Creds_State L c" s2, OF assms(4)] split: sum.splits prod.splits)
  then show ?thesis
    by (simp add: bnd_def emit_def ret_def split: sum.splits prod.splits)
qed

text \<open>
  C8. When \<^verbatim>\<open>UpdateCcache\<close> returns true because the cached credential is Valid, it
  has left the outside world as it was (the clock is part of that world), so a second
  call that follows at once, on the state the first one left, returns true as well, and
  none of its events is a creation, a store, a renewal or an initial issue.
\<close>

theorem UpdateCcache_valid_twice:
  assumes "svc_ccache svc = Some cc"
    and "FileExists L cc s = Inr (True, s1, e1)"
    and "Ccache_GetCreds L cc s1 = Inr (Some c, s2, e2)"
    and "Creds_State L c s2 = Inr (None_State, s3, e3)"
  shows "\<exists>s' es. UpdateCcache L svc s = Inr (True, s', es) \<and>
           (\<exists>es'. UpdateCcache L svc s' = Inr (True, s', es') \<and> \<not> list_ex mutation es')"
proof -
  have 1: "s1 = s" "\<not> list_ex mutation e1"
    using reads_onlyD [OF reads_only_FileExists assms(2)] by simp_all
  have 2: "s2 = s1" "\<not> list_ex mutation e2"
    using reads_onlyD [OF reads_only_Ccache_GetCreds assms(3)] by simp_all
  have 3: "s3 = s2" "\<not> list_ex mutation e3"
    using reads_onlyD [OF reads_only_Creds_State assms(4)] by simp_all
  from assms(1) have "UpdateCcache L svc s = Inr (True, s3, e1 @ e2 @ e3)"
    by (simp add: UpdateCcache_def bnd_Inr [of "FileExists L cc" s, OF assms(2)] bnd_Inr [of "Ccache_GetCreds L cc" s1, OF assms(3)]
          bnd_Inr [of "Creds_State L c" s2, OF assms(4)] ret_def)
  with 1 2 3 have "UpdateCcache L svc s = Inr (True, s, e1 @ e2 @ e3)"
    and "\<not> list_ex mutation (e1 @ e2 @ e3)" by simp_all
  then show ?thesis by blast
qed

section \<open>The scenarios, run\<close>

lemmas code_defs =
  UpdateCcache_def CreateCcache_def log_times_def Update_def Ccache_GetCreds_def
  GetServerPrincipal_def KRB5_TGS_NAME_def Ccache_GetPrincipal_def Create_def
  Keytab_GetCreds_def Keytab_GetPrincipal_def FileExists_def Creds_State_def TimesInfo_def
  time_now_def now_of_def StartTime_def EndTime_def RenewTime_def read_creds_def Realm_def
  Ptr_def Principal_ctor_def Let_def

lemmas scenario_defs =
  world_def the_service_def the_ccache_def the_keytab_def tgt_def app_principal_def
  tgs_principal_def keytab_principal_events_def ccache_creds_events_def create_events_def

lemma the_service_ccache: "svc_ccache the_service = Some the_ccache"
  by (simp add: the_service_def)

lemma FileExists_world:
  "FileExists sim_lib the_ccache ((world t)\<lparr>sim_renewal := r\<rparr>) =
     Inr (True, (world t)\<lparr>sim_renewal := r\<rparr>, [Call ''fs::exists''])"
  by (simp add: code_defs run_defs sim_defs scenario_defs)

lemma FileExists_no_file:
  "FileExists sim_lib the_ccache ((world t)\<lparr>sim_files := []\<rparr>) =
     Inr (False, (world t)\<lparr>sim_files := []\<rparr>, [Call ''fs::exists''])"
  by (simp add: code_defs run_defs sim_defs scenario_defs)

lemma Ccache_GetCreds_world:
  "Ccache_GetCreds sim_lib the_ccache ((world t)\<lparr>sim_renewal := r\<rparr>) =
     Inr (Some \<lparr>m_creds = Val (tgt 1000 2000 5000)\<rparr>, (world t)\<lparr>sim_renewal := r\<rparr>,
          ccache_creds_events)"
  by (simp add: code_defs run_defs sim_defs scenario_defs)

lemma Creds_State_2500:
  "Creds_State sim_lib \<lparr>m_creds = Val (tgt 1000 2000 5000)\<rparr> ((world 2500)\<lparr>sim_renewal := r\<rparr>) =
     Inr (Renew, (world 2500)\<lparr>sim_renewal := r\<rparr>, [Call ''krb5_timeofday''])"
  by (simp add: Creds_State_run now_of_def sim_defs scenario_defs)

lemma Creds_State_1500:
  "Creds_State sim_lib \<lparr>m_creds = Val (tgt 1000 2000 5000)\<rparr> ((world 1500)\<lparr>sim_renewal := r\<rparr>) =
     Inr (None_State, (world 1500)\<lparr>sim_renewal := r\<rparr>, [Call ''krb5_timeofday''])"
  by (simp add: Creds_State_run now_of_def sim_defs scenario_defs)

lemma Update_no_renewal:
  "Update sim_lib the_ccache ((world t)\<lparr>sim_renewal := None\<rparr>) =
     Inr (False, (world t)\<lparr>sim_renewal := None\<rparr>,
          [Call ''krb5_cc_get_principal'', Call ''krb5_copy_principal''] @ ccache_creds_events @
          [Call ''krb5_get_renewed_creds'', Error KRB5_KDC_UNREACH ''krb5_get_renewed_creds''])"
  by (simp add: code_defs run_defs sim_defs scenario_defs)

lemma CreateCcache_no_renewal:
  "CreateCcache sim_lib the_service ((world t)\<lparr>sim_renewal := None\<rparr>) =
     Inr (True, (world t)\<lparr>sim_renewal := None, sim_cache_creds := [tgt 3000 4000 9000]\<rparr>,
          create_events t)"
  by (simp add: code_defs run_defs sim_defs scenario_defs)

lemma CreateCcache_no_file:
  "CreateCcache sim_lib the_service ((world t)\<lparr>sim_files := []\<rparr>) =
     Inr (True, (world t)\<lparr>sim_files := [], sim_cache_creds := [tgt 3000 4000 9000]\<rparr>,
          create_events t)"
  by (simp add: code_defs run_defs sim_defs scenario_defs)

theorem UpdateCcache_without_file_witness:
  "svc_ccache the_service = Some the_ccache \<and>
   FileExists sim_lib the_ccache ((world 6000)\<lparr>sim_files := []\<rparr>) =
     Inr (False, (world 6000)\<lparr>sim_files := []\<rparr>, [Call ''fs::exists'']) \<and>
   CreateCcache sim_lib the_service ((world 6000)\<lparr>sim_files := []\<rparr>) =
     Inr (True, (world 6000)\<lparr>sim_files := [], sim_cache_creds := [tgt 3000 4000 9000]\<rparr>,
          create_events 6000) \<and>
   UpdateCcache sim_lib the_service ((world 6000)\<lparr>sim_files := []\<rparr>) =
     Inr (True, (world 6000)\<lparr>sim_files := [], sim_cache_creds := [tgt 3000 4000 9000]\<rparr>,
          Call ''fs::exists'' # create_events 6000)"
  using UpdateCcache_without_file [OF the_service_ccache FileExists_no_file [of 6000]]
  by (simp add: the_service_ccache FileExists_no_file CreateCcache_no_file)

theorem UpdateCcache_renew_fallback_witness:
  "svc_ccache the_service = Some the_ccache \<and>
   FileExists sim_lib the_ccache ((world 2500)\<lparr>sim_renewal := None\<rparr>) =
     Inr (True, (world 2500)\<lparr>sim_renewal := None\<rparr>, [Call ''fs::exists'']) \<and>
   Ccache_GetCreds sim_lib the_ccache ((world 2500)\<lparr>sim_renewal := None\<rparr>) =
     Inr (Some \<lparr>m_creds = Val (tgt 1000 2000 5000)\<rparr>, (world 2500)\<lparr>sim_renewal := None\<rparr>,
          ccache_creds_events) \<and>
   Creds_State sim_lib \<lparr>m_creds = Val (tgt 1000 2000 5000)\<rparr> ((world 2500)\<lparr>sim_renewal := None\<rparr>) =
     Inr (Renew, (world 2500)\<lparr>sim_renewal := None\<rparr>, [Call ''krb5_timeofday'']) \<and>
   Update sim_lib the_ccache ((world 2500)\<lparr>sim_renewal := None\<rparr>) =
     Inr (False, (world 2500)\<lparr>sim_renewal := None\<rparr>,
          [Call ''krb5_cc_get_principal'', Call ''krb5_copy_principal''] @ ccache_creds_events @
          [Call ''krb5_get_renewed_creds'', Error KRB5_KDC_UNREACH ''krb5_get_renewed_creds'']) \<and>
   UpdateCcache sim_lib the_service ((world 2500)\<lparr>sim_renewal := None\<rparr>) =
     Inr (True, (world 2500)\<lparr>sim_renewal := None, sim_cache_creds := [tgt 3000 4000 9000]\<rparr>,
          [Call ''fs::exists''] @ ccache_creds_events @
          [Call ''krb5_timeofday'', Info ''Update ccache'',
           Call ''krb5_cc_get_principal'', Call ''krb5_copy_principal''] @ ccache_creds_events @
          [Call ''krb5_get_renewed_creds'', Error KRB5_KDC_UNREACH ''krb5_get_renewed_creds'',
           Info ''Update ccache error. REINIT''] @ create_events 2500)"
  using UpdateCcache_renew_fallback [OF the_service_ccache FileExists_world [where t = 2500 and r = None]
      Ccache_GetCreds_world [where t = 2500 and r = None] Creds_State_2500 [of None]]
  by (simp add: the_service_ccache FileExists_world Ccache_GetCreds_world Creds_State_2500
        Update_no_renewal CreateCcache_no_renewal)

theorem UpdateCcache_valid_twice_witness:
  "svc_ccache the_service = Some the_ccache \<and>
   FileExists sim_lib the_ccache ((world 1500)\<lparr>sim_renewal := None\<rparr>) =
     Inr (True, (world 1500)\<lparr>sim_renewal := None\<rparr>, [Call ''fs::exists'']) \<and>
   Ccache_GetCreds sim_lib the_ccache ((world 1500)\<lparr>sim_renewal := None\<rparr>) =
     Inr (Some \<lparr>m_creds = Val (tgt 1000 2000 5000)\<rparr>, (world 1500)\<lparr>sim_renewal := None\<rparr>,
          ccache_creds_events) \<and>
   Creds_State sim_lib \<lparr>m_creds = Val (tgt 1000 2000 5000)\<rparr> ((world 1500)\<lparr>sim_renewal := None\<rparr>) =
     Inr (None_State, (world 1500)\<lparr>sim_renewal := None\<rparr>, [Call ''krb5_timeofday'']) \<and>
   (\<exists>s' es. UpdateCcache sim_lib the_service ((world 1500)\<lparr>sim_renewal := None\<rparr>) =
        Inr (True, s', es) \<and>
      (\<exists>es'. UpdateCcache sim_lib the_service s' = Inr (True, s', es') \<and>
         \<not> list_ex mutation es'))"
  using UpdateCcache_valid_twice [OF the_service_ccache FileExists_world [where t = 1500 and r = None]
      Ccache_GetCreds_world [where t = 1500 and r = None] Creds_State_1500 [of None]]
  by (simp add: the_service_ccache FileExists_world Ccache_GetCreds_world Creds_State_1500)

section \<open>Where the code leaves the claims\<close>

text \<open>
  C5. With a key table that has no entry, \<^verbatim>\<open>krb5_kt_next_entry\<close> fails. The code reports
  the error and goes on: \<^verbatim>\<open>Keytab::GetPrincipal\<close> does not return an empty result but
  builds a \<^verbatim>\<open>Principal\<close> from \<^verbatim>\<open>entry.principal\<close>, which nothing has written.
\<close>

theorem Keytab_GetPrincipal_empty_keytab:
  "Keytab_GetPrincipal sim_lib the_keytab ((world 1500)\<lparr>sim_keytab := []\<rparr>) = Inl UninitRead"
  by (simp add: code_defs run_defs sim_defs scenario_defs)

text \<open>
  C6. When the key distribution centre does not answer, \<^verbatim>\<open>krb5_get_init_creds_keytab\<close>
  fails. The code reports the error and \<^verbatim>\<open>Keytab::GetCreds\<close> returns a \<^verbatim>\<open>Creds\<close>
  object all the same, made from the local \<^verbatim>\<open>creds\<close> that nothing has written.
\<close>

theorem Keytab_GetCreds_failed_exchange:
  "Keytab_GetCreds sim_lib the_keytab ((world 1500)\<lparr>sim_issue := None\<rparr>) =
     Inr (Some \<lparr>m_creds = Indeterminate\<rparr>, (world 1500)\<lparr>sim_issue := None\<rparr>,
          keytab_principal_events @
          [Call ''krb5_get_init_creds_keytab'',
           Error KRB5_KDC_UNREACH ''krb5_get_init_creds_keytab''])"
  by (simp add: code_defs run_defs sim_defs scenario_defs)

text \<open>
  C7. When the server principal cannot be built, \<^verbatim>\<open>GetServerPrincipal\<close> returns an empty
  pointer. \<^verbatim>\<open>Ccache::GetCreds\<close> tests \<^verbatim>\<open>principal_client\<close> a second time instead of
  \<^verbatim>\<open>principal_server\<close> and dereferences the empty pointer.
\<close>

theorem Ccache_GetCreds_no_server_principal:
  "Ccache_GetCreds sim_lib the_ccache
     ((world 1500)\<lparr>sim_failing := [''krb5_build_principal_ext'']\<rparr>) = Inl NullDeref"
  by (simp add: code_defs run_defs sim_defs scenario_defs)

text \<open>
  C10. When the cache has been created and stored and the read-back of the credential
  fails, \<^verbatim>\<open>CreateCcache\<close> dereferences the empty result of \<^verbatim>\<open>getCreds\<close>.
\<close>

theorem CreateCcache_failed_read_back:
  "Create sim_lib the_ccache (Some \<lparr>m_principal = Some app_principal\<rparr>)
       (Some \<lparr>m_creds = Val (tgt 3000 4000 9000)\<rparr>)
       ((world 1500)\<lparr>sim_failing := [''krb5_cc_retrieve_cred'']\<rparr>) =
     Inr (True,
          (world 1500)\<lparr>sim_failing := [''krb5_cc_retrieve_cred''],
                        sim_cache_creds := [tgt 3000 4000 9000]\<rparr>,
          [Call ''krb5_cc_initialize'', Call ''krb5_cc_store_cred'']) \<and>
   Ccache_GetCreds sim_lib the_ccache
       ((world 1500)\<lparr>sim_failing := [''krb5_cc_retrieve_cred''],
                     sim_cache_creds := [tgt 3000 4000 9000]\<rparr>) =
     Inr (None,
          (world 1500)\<lparr>sim_failing := [''krb5_cc_retrieve_cred''],
                        sim_cache_creds := [tgt 3000 4000 9000]\<rparr>,
          ccache_creds_events @ [Error EIO ''krb5_cc_retrieve_cred'']) \<and>
   CreateCcache sim_lib the_service
       ((world 1500)\<lparr>sim_failing := [''krb5_cc_retrieve_cred'']\<rparr>) = Inl NullDeref"
  by (simp add: code_defs run_defs sim_defs scenario_defs)

section \<open>The path of a store\<close>

lemma Keytab_DefaultName_run:
  "Keytab_DefaultName L s =
     (case krb5_kt_default_name L s of
        (code, name) \<Rightarrow>
          if code \<noteq> 0
          then Inr ([], s, [Call ''krb5_kt_default_name'', Error code ''krb5_kt_default_name''])
          else Inr (name, s, [Call ''krb5_kt_default_name'']))"
  by (simp add: Keytab_DefaultName_def run_defs split: prod.splits)

lemma Keytab_ConfigName_run:
  "Keytab_ConfigName L s =
     Inr (cfg_variable L s ''kerberos/keytab''
            (Some (cfg_variable L s ''system/progpath'' None @ ''/keytab'')), s,
          [Call ''cfg.variable(system/progpath)'', Call ''cfg.variable(kerberos/keytab)''])"
  by (simp add: Keytab_ConfigName_def run_defs)

lemma Ccache_DefaultName_run:
  "Ccache_DefaultName L s = Inr (krb5_cc_default_name L s, s, [Call ''krb5_cc_default_name''])"
  by (simp add: Ccache_DefaultName_def run_defs)

lemma Ccache_ConfigName_run:
  "Ccache_ConfigName L s =
     Inr (cfg_variable L s ''kerberos/ccache'' (Some (cfg_variable L s ''system/progpath'' None)) @
          ''/krb5cc_'' @ cfg_variable L s ''system/progname'' None, s,
          [Call ''cfg.variable(system/progpath)'', Call ''cfg.variable(kerberos/ccache)'',
           Call ''cfg.variable(system/progname)''])"
  by (simp add: Ccache_ConfigName_def run_defs)

text \<open>The events of \<^verbatim>\<open>Init\<close>: the read of the mode, then the query for a default, if any.\<close>

lemma Init_run:
  assumes "defaultName s = Inr (d, s, ed)" and "configName s = Inr (c, s, ec)"
  shows "Init L defaultName configName obj s =
           Inr (obj\<lparr>m_program_type := cfg_variable L s ''system/type'' (Some ''manual''),
                   m_fullpath := resolved_path (m_fullpath obj)
                     (cfg_variable L s ''system/type'' (Some ''manual'')) d c\<rparr>, s,
                Call ''cfg.variable(system/type)'' #
                (if m_fullpath obj \<noteq> [] then []
                 else if cfg_variable L s ''system/type'' (Some ''manual'') = ''manual'' then ed
                 else ec))"
  using assms
  by (simp add: Init_def resolved_path_def run_defs)

lemma Keytab_ctor_run:
  assumes "Keytab_DefaultName L s = Inr (d, s, ed)"
    and "Keytab_ConfigName L s = Inr (c, s, ec)"
    and "krb5_kt_resolve L s
           (resolved_path path (cfg_variable L s ''system/type'' (Some ''manual'')) d c) = (code, h)"
  shows "Keytab_ctor L path s =
           Inr (\<lparr>m_fullpath = resolved_path path (cfg_variable L s ''system/type'' (Some ''manual'')) d c,
                 m_program_type = cfg_variable L s ''system/type'' (Some ''manual''),
                 m_keytab = (if code = 0 then Some h else None)\<rparr>, s,
                Call ''cfg.variable(system/type)'' #
                (if path \<noteq> [] then []
                 else if cfg_variable L s ''system/type'' (Some ''manual'') = ''manual'' then ed
                 else ec) @
                Call ''krb5_kt_resolve'' #
                (if code = 0 then [] else [Error code ''krb5_kt_resolve'']))"
  using assms(3)
  by (simp add: Keytab_ctor_def FileName_def run_defs
        Init_run [where defaultName = "Keytab_DefaultName L" and configName = "Keytab_ConfigName L"
          and s = s, OF assms(1) assms(2)])

lemma Ccache_ctor_run:
  assumes "Ccache_DefaultName L s = Inr (d, s, ed)"
    and "Ccache_ConfigName L s = Inr (c, s, ec)"
    and "krb5_cc_resolve L
           (setenv L s ''KRB5CCNAME''
              (resolved_path path (cfg_variable L s ''system/type'' (Some ''manual'')) d c))
           (resolved_path path (cfg_variable L s ''system/type'' (Some ''manual'')) d c) = (code, h)"
  shows "Ccache_ctor L path s =
           Inr (\<lparr>m_fullpath = resolved_path path (cfg_variable L s ''system/type'' (Some ''manual'')) d c,
                 m_program_type = cfg_variable L s ''system/type'' (Some ''manual''),
                 m_ccache = (if code = 0 then Some h else None)\<rparr>,
                setenv L s ''KRB5CCNAME''
                  (resolved_path path (cfg_variable L s ''system/type'' (Some ''manual'')) d c),
                Call ''cfg.variable(system/type)'' #
                (if path \<noteq> [] then []
                 else if cfg_variable L s ''system/type'' (Some ''manual'') = ''manual'' then ed
                 else ec) @
                Call ''setenv'' # Call ''krb5_cc_resolve'' #
                (if code = 0 then [] else [Error code ''krb5_cc_resolve'']))"
  using assms(3)
  by (simp add: Ccache_ctor_def FileName_def run_defs
        Init_run [where defaultName = "Ccache_DefaultName L" and configName = "Ccache_ConfigName L"
          and s = s, OF assms(1) assms(2)])

lemma Keytab_DefaultName_events:
  assumes "Keytab_DefaultName L s = Inr (d, s1, ed)"
  shows "s1 = s" and "count_list ed (Call ''cfg.variable(system/type)'') = 0"
    and "count_list ed (Call ''krb5_kt_resolve'') = 0"
  using assms
  by (auto simp add: Keytab_DefaultName_run split: prod.splits if_splits)

lemma Keytab_ConfigName_events:
  assumes "Keytab_ConfigName L s = Inr (c, s1, ec)"
  shows "s1 = s" and "count_list ec (Call ''cfg.variable(system/type)'') = 0"
    and "count_list ec (Call ''krb5_kt_resolve'') = 0"
  using assms
  by (auto simp add: Keytab_ConfigName_run)

lemma Ccache_DefaultName_events:
  assumes "Ccache_DefaultName L s = Inr (d, s1, ed)"
  shows "s1 = s" and "count_list ed (Call ''cfg.variable(system/type)'') = 0"
    and "count_list ed (Call ''krb5_cc_resolve'') = 0"
  using assms
  by (auto simp add: Ccache_DefaultName_run)

lemma Ccache_ConfigName_events:
  assumes "Ccache_ConfigName L s = Inr (c, s1, ec)"
  shows "s1 = s" and "count_list ec (Call ''cfg.variable(system/type)'') = 0"
    and "count_list ec (Call ''krb5_cc_resolve'') = 0"
  using assms
  by (auto simp add: Ccache_ConfigName_run)

lemma Keytab_ctor_path:
  assumes "Keytab_ctor L path s = Inr (kt, sk, ek)"
    and "Keytab_DefaultName L s = Inr (d, s1, e1)"
    and "Keytab_ConfigName L s = Inr (c, s2, e2)"
  shows "sk = s \<and>
         m_program_type kt = cfg_variable L s ''system/type'' (Some ''manual'') \<and>
         m_fullpath kt = resolved_path path (cfg_variable L s ''system/type'' (Some ''manual'')) d c \<and>
         m_keytab kt =
           (case krb5_kt_resolve L s (m_fullpath kt) of
              (code, h) \<Rightarrow> if code = 0 then Some h else None) \<and>
         (\<exists>rest. ek = Call ''cfg.variable(system/type)'' #
                     (if path \<noteq> [] then []
                      else if cfg_variable L s ''system/type'' (Some ''manual'') = ''manual''
                           then e1 else e2) @
                     Call ''krb5_kt_resolve'' # rest) \<and>
         count_list ek (Call ''cfg.variable(system/type)'') = 1 \<and>
         count_list ek (Call ''krb5_kt_resolve'') = 1"
proof -
  note d = Keytab_DefaultName_events [OF assms(2)]
  note c = Keytab_ConfigName_events [OF assms(3)]
  obtain code h where r: "krb5_kt_resolve L s
      (resolved_path path (cfg_variable L s ''system/type'' (Some ''manual'')) d c) = (code, h)"
    by (cases "krb5_kt_resolve L s
      (resolved_path path (cfg_variable L s ''system/type'' (Some ''manual'')) d c)")
  from assms(2) d(1) have dn: "Keytab_DefaultName L s = Inr (d, s, e1)" by simp
  from assms(3) c(1) have cn: "Keytab_ConfigName L s = Inr (c, s, e2)" by simp
  from assms(1) show ?thesis
    unfolding Keytab_ctor_run [OF dn cn r]
    using r d(2,3) c(2,3) by auto
qed

lemma Ccache_ctor_path:
  assumes "Ccache_ctor L path s = Inr (cc, sc, ec)"
    and "Ccache_DefaultName L s = Inr (d, s1, e1)"
    and "Ccache_ConfigName L s = Inr (c, s2, e2)"
  shows "sc = setenv L s ''KRB5CCNAME'' (m_fullpath cc) \<and>
         m_program_type cc = cfg_variable L s ''system/type'' (Some ''manual'') \<and>
         m_fullpath cc = resolved_path path (cfg_variable L s ''system/type'' (Some ''manual'')) d c \<and>
         m_ccache cc =
           (case krb5_cc_resolve L sc (m_fullpath cc) of
              (code, h) \<Rightarrow> if code = 0 then Some h else None) \<and>
         (\<exists>rest. ec = Call ''cfg.variable(system/type)'' #
                     (if path \<noteq> [] then []
                      else if cfg_variable L s ''system/type'' (Some ''manual'') = ''manual''
                           then e1 else e2) @
                     Call ''setenv'' # Call ''krb5_cc_resolve'' # rest) \<and>
         count_list ec (Call ''cfg.variable(system/type)'') = 1 \<and>
         count_list ec (Call ''krb5_cc_resolve'') = 1"
proof -
  note d = Ccache_DefaultName_events [OF assms(2)]
  note c = Ccache_ConfigName_events [OF assms(3)]
  obtain code h where r: "krb5_cc_resolve L
           (setenv L s ''KRB5CCNAME''
              (resolved_path path (cfg_variable L s ''system/type'' (Some ''manual'')) d c))
           (resolved_path path (cfg_variable L s ''system/type'' (Some ''manual'')) d c) = (code, h)"
    by (cases "krb5_cc_resolve L
           (setenv L s ''KRB5CCNAME''
              (resolved_path path (cfg_variable L s ''system/type'' (Some ''manual'')) d c))
           (resolved_path path (cfg_variable L s ''system/type'' (Some ''manual'')) d c)")
  from assms(2) d(1) have dn: "Ccache_DefaultName L s = Inr (d, s, e1)" by simp
  from assms(3) c(1) have cn: "Ccache_ConfigName L s = Inr (c, s, e2)" by simp
  from assms(1) show ?thesis
    unfolding Ccache_ctor_run [OF dn cn r]
    using r d(2,3) c(2,3) by auto
qed

text \<open>
  C9. The constructors of \<^verbatim>\<open>Keytab\<close> and \<^verbatim>\<open>Ccache\<close> leave in \<^verbatim>\<open>fullpath_\<close> the
  explicit path when it is not empty, otherwise \<^verbatim>\<open>DefaultName()\<close> when the mode read
  from the configuration is \<^verbatim>\<open>manual\<close> and \<^verbatim>\<open>ConfigName()\<close> when it is anything else.
  The mode is read once; the native resolve call is made once, with that path, and
  after the events of the resolution (for the cache, after the environment variable
  has been set to that path as well).
\<close>

theorem store_path_resolution:
  assumes "Keytab_ctor L kpath s = Inr (kt, sk, ek)"
    and "Keytab_DefaultName L s = Inr (kd, s1, e1)"
    and "Keytab_ConfigName L s = Inr (kc, s2, e2)"
    and "Ccache_ctor L cpath s = Inr (cc, sc, ec)"
    and "Ccache_DefaultName L s = Inr (cd, s3, e3)"
    and "Ccache_ConfigName L s = Inr (cn, s4, e4)"
  shows "(sk = s \<and>
          m_program_type kt = cfg_variable L s ''system/type'' (Some ''manual'') \<and>
          m_fullpath kt =
            resolved_path kpath (cfg_variable L s ''system/type'' (Some ''manual'')) kd kc \<and>
          m_keytab kt =
            (case krb5_kt_resolve L s (m_fullpath kt) of
               (code, h) \<Rightarrow> if code = 0 then Some h else None) \<and>
          (\<exists>rest. ek = Call ''cfg.variable(system/type)'' #
                      (if kpath \<noteq> [] then []
                       else if cfg_variable L s ''system/type'' (Some ''manual'') = ''manual''
                            then e1 else e2) @
                      Call ''krb5_kt_resolve'' # rest) \<and>
          count_list ek (Call ''cfg.variable(system/type)'') = 1 \<and>
          count_list ek (Call ''krb5_kt_resolve'') = 1) \<and>
         (sc = setenv L s ''KRB5CCNAME'' (m_fullpath cc) \<and>
          m_program_type cc = cfg_variable L s ''system/type'' (Some ''manual'') \<and>
          m_fullpath cc =
            resolved_path cpath (cfg_variable L s ''system/type'' (Some ''manual'')) cd cn \<and>
          m_ccache cc =
            (case krb5_cc_resolve L sc (m_fullpath cc) of
               (code, h) \<Rightarrow> if code = 0 then Some h else None) \<and>
          (\<exists>rest. ec = Call ''cfg.variable(system/type)'' #
                      (if cpath \<noteq> [] then []
                       else if cfg_variable L s ''system/type'' (Some ''manual'') = ''manual''
                            then e3 else e4) @
                      Call ''setenv'' # Call ''krb5_cc_resolve'' # rest) \<and>
          count_list ec (Call ''cfg.variable(system/type)'') = 1 \<and>
          count_list ec (Call ''krb5_cc_resolve'') = 1)"
  using Keytab_ctor_path [OF assms(1) assms(2) assms(3)]
    Ccache_ctor_path [OF assms(4) assms(5) assms(6)]
  by (rule conjI)

lemma Keytab_ctor_world:
  "Keytab_ctor sim_lib [] (world 1500) =
     Inr (the_keytab, world 1500,
          [Call ''cfg.variable(system/type)'', Call ''cfg.variable(system/progpath)'',
           Call ''cfg.variable(kerberos/keytab)'', Call ''krb5_kt_resolve''])"
  by (simp add: Keytab_ctor_def Init_def Keytab_ConfigName_def FileName_def run_defs sim_defs
        scenario_defs)

lemma Ccache_ctor_world:
  "Ccache_ctor sim_lib ''FILE:/opt/app/krb5cc_app'' (world 1500) =
     Inr (the_ccache, (world 1500)\<lparr>sim_env := [(''KRB5CCNAME'', ''FILE:/opt/app/krb5cc_app'')]\<rparr>,
          [Call ''cfg.variable(system/type)'', Call ''setenv'', Call ''krb5_cc_resolve''])"
  by (simp add: Ccache_ctor_def Init_def FileName_def run_defs sim_defs scenario_defs)

lemma Keytab_DefaultName_world:
  "Keytab_DefaultName sim_lib (world 1500) =
     Inr (''FILE:/etc/krb5.keytab'', world 1500, [Call ''krb5_kt_default_name''])"
  by (simp add: Keytab_DefaultName_run sim_defs scenario_defs)

lemma Keytab_ConfigName_world:
  "Keytab_ConfigName sim_lib (world 1500) =
     Inr (''/opt/app/keytab'', world 1500,
          [Call ''cfg.variable(system/progpath)'', Call ''cfg.variable(kerberos/keytab)''])"
  by (simp add: Keytab_ConfigName_run sim_defs scenario_defs)

lemma Ccache_DefaultName_world:
  "Ccache_DefaultName sim_lib (world 1500) =
     Inr (''FILE:/tmp/krb5cc_0'', world 1500, [Call ''krb5_cc_default_name''])"
  by (simp add: Ccache_DefaultName_run sim_defs scenario_defs)

lemma Ccache_ConfigName_world:
  "Ccache_ConfigName sim_lib (world 1500) =
     Inr (''/opt/app/krb5cc_app'', world 1500,
          [Call ''cfg.variable(system/progpath)'', Call ''cfg.variable(kerberos/ccache)'',
           Call ''cfg.variable(system/progname)''])"
  by (simp add: Ccache_ConfigName_run sim_defs scenario_defs)

theorem store_path_resolution_witness:
  "Keytab_ctor sim_lib [] (world 1500) =
     Inr (the_keytab, world 1500,
          [Call ''cfg.variable(system/type)'', Call ''cfg.variable(system/progpath)'',
           Call ''cfg.variable(kerberos/keytab)'', Call ''krb5_kt_resolve'']) \<and>
   Keytab_DefaultName sim_lib (world 1500) =
     Inr (''FILE:/etc/krb5.keytab'', world 1500, [Call ''krb5_kt_default_name'']) \<and>
   Keytab_ConfigName sim_lib (world 1500) =
     Inr (''/opt/app/keytab'', world 1500,
          [Call ''cfg.variable(system/progpath)'', Call ''cfg.variable(kerberos/keytab)'']) \<and>
   Ccache_ctor sim_lib ''FILE:/opt/app/krb5cc_app'' (world 1500) =
     Inr (the_ccache, (world 1500)\<lparr>sim_env := [(''KRB5CCNAME'', ''FILE:/opt/app/krb5cc_app'')]\<rparr>,
          [Call ''cfg.variable(system/type)'', Call ''setenv'', Call ''krb5_cc_resolve'']) \<and>
   Ccache_DefaultName sim_lib (world 1500) =
     Inr (''FILE:/tmp/krb5cc_0'', world 1500, [Call ''krb5_cc_default_name'']) \<and>
   Ccache_ConfigName sim_lib (world 1500) =
     Inr (''/opt/app/krb5cc_app'', world 1500,
          [Call ''cfg.variable(system/progpath)'', Call ''cfg.variable(kerberos/ccache)'',
           Call ''cfg.variable(system/progname)'']) \<and>
   m_fullpath the_keytab =
     resolved_path [] (cfg_variable sim_lib (world 1500) ''system/type'' (Some ''manual''))
       ''FILE:/etc/krb5.keytab'' ''/opt/app/keytab'' \<and>
   m_fullpath the_ccache =
     resolved_path ''FILE:/opt/app/krb5cc_app''
       (cfg_variable sim_lib (world 1500) ''system/type'' (Some ''manual''))
       ''FILE:/tmp/krb5cc_0'' ''/opt/app/krb5cc_app''"
  using store_path_resolution [OF Keytab_ctor_world Keytab_DefaultName_world
      Keytab_ConfigName_world Ccache_ctor_world Ccache_DefaultName_world Ccache_ConfigName_world]
  by (simp add: Keytab_ctor_world Keytab_DefaultName_world Keytab_ConfigName_world
        Ccache_ctor_world Ccache_DefaultName_world Ccache_ConfigName_world)

end
